theory Spec2Isabelle
  imports Complex_Main "HOL-Library.Log_Nat"
begin

section \<open>Token-aware conversation memory (memory.py, routes/chat.py)\<close>

text \<open>
  A shallow embedding of \<^verbatim>\<open>TokenAwareMemoryManager\<close>, \<^verbatim>\<open>Summarizer\<close> and
  \<^verbatim>\<open>count_tokens\<close>.

  Conventions of the embedding.
  \<^item> The attributes of \<^verbatim>\<open>self\<close> that \<^verbatim>\<open>__init__\<close> reads from the application
    configuration and never writes again form the record \<open>config\<close>; the attributes the
    methods write form the record \<open>memory\<close>. A method that mutates \<^verbatim>\<open>self\<close> returns the
    new \<open>memory\<close>.
  \<^item> An exception that leaves a method is a value of \<open>py_error\<close>. A method that can
    raise after it has mutated \<^verbatim>\<open>self\<close> returns the exception (if any) together with
    the memory as the exception leaves it.
  \<^item> Python \<^verbatim>\<open>int\<close> is \<open>int\<close>. A finite Python \<^verbatim>\<open>float\<close> is the rational number it
    stands for, of type \<open>rat\<close>; the order between an \<^verbatim>\<open>int\<close> and a \<^verbatim>\<open>float\<close> is the order
    of the numbers, as in Python. Infinities and NaN are outside the embedding.
  \<^item> The adaptive threshold is computed as the interpreter computes it: the product
    \<^verbatim>\<open>tok_K * safety_margin\<close> is rounded to the nearest double, ties to even (IEEE 754
    binary64), and so is every number converted to \<^verbatim>\<open>float\<close> on the way.
  \<^item> The arithmetic of \<^verbatim>\<open>_calculate_dynamic_threshold\<close> (powers of the smoothing factor,
    the two sums, the two quotients) is exact: the rounding of \<^verbatim>\<open>**\<close> and of \<^verbatim>\<open>sum\<close> is
    that of the platform's library and of the interpreter's version. Its results are used
    below only where rounding does not change them: on a buffer of zeros or of one
    entry, where every value is a double, and on three entries of 40 tokens, where the
    smoothed average is 40 up to rounding and the quotient 2.25 is far from an integer.
    Division by zero raises, as in Python.
  \<^item> Library calls whose code is not part of the repository are parameters:
    \<^verbatim>\<open>json.loads\<close>, \<^verbatim>\<open>json.dumps\<close>, the chat completion of the summarizer model and the
    outcome of the SQL insert in the record \<open>env\<close>, the tokenizer library in the record
    \<open>tiktoken\<close>.
  \<^item> A \<^verbatim>\<open>str\<close> is a \<open>string\<close>, its length the number of its characters.
  \<^item> Logging is not modelled.
\<close>

subsection \<open>Python values and built-ins\<close>

datatype py_error = ZeroDivisionError | AttributeError | DatabaseError

text \<open>A value decoded by \<^verbatim>\<open>json.loads\<close>; a \<^verbatim>\<open>dict\<close> is an association list in
  insertion order (its keys distinct).\<close>

datatype json =
    JNull
  | JBool bool
  | JInt int
  | JFloat rat
  | JString string
  | JArray "json list"
  | JObject "(string \<times> json) list"

text \<open>\<^verbatim>\<open>bool(v)\<close>: what an \<^verbatim>\<open>if v:\<close> tests.\<close>

fun truthy :: "json \<Rightarrow> bool" where
  "truthy JNull = False"
| "truthy (JBool b) = b"
| "truthy (JInt i) = (i \<noteq> 0)"
| "truthy (JFloat r) = (r \<noteq> 0)"
| "truthy (JString s) = (s \<noteq> [])"
| "truthy (JArray xs) = (xs \<noteq> [])"
| "truthy (JObject kvs) = (kvs \<noteq> [])"

text \<open>\<^verbatim>\<open>bool(s)\<close> for \<^verbatim>\<open>s\<close> a \<^verbatim>\<open>str\<close> or \<^verbatim>\<open>None\<close>.\<close>

definition truthy_str :: "string option \<Rightarrow> bool" where
  "truthy_str s = (case s of None \<Rightarrow> False | Some t \<Rightarrow> t \<noteq> [])"

text \<open>\<^verbatim>\<open>d.get(key, default)\<close> on a \<^verbatim>\<open>dict\<close>.\<close>

definition dict_get :: "(string \<times> json) list \<Rightarrow> string \<Rightarrow> json \<Rightarrow> json" where
  "dict_get kvs key dflt = (case map_of kvs key of None \<Rightarrow> dflt | Some v \<Rightarrow> v)"

text \<open>\<^verbatim>\<open>v.get(key, default)\<close> on any decoded value: only a \<^verbatim>\<open>dict\<close> has the attribute
  \<^verbatim>\<open>get\<close>.\<close>

definition json_get :: "json \<Rightarrow> string \<Rightarrow> json \<Rightarrow> py_error + json" where
  "json_get v key dflt =
     (case v of JObject kvs \<Rightarrow> Inr (dict_get kvs key dflt) | _ \<Rightarrow> Inl AttributeError)"

fun intercalate :: "string \<Rightarrow> string list \<Rightarrow> string" where
  "intercalate sep [] = []"
| "intercalate sep [x] = x"
| "intercalate sep (x # y # ys) = x @ sep @ intercalate sep (y # ys)"

fun json_str :: "json \<Rightarrow> string option" where
  "json_str (JString s) = Some s"
| "json_str _ = None"

text \<open>\<^verbatim>\<open>sep.join(v)\<close>; \<open>None\<close> is \<^verbatim>\<open>TypeError\<close> (\<^verbatim>\<open>v\<close> is not iterable, or an item
  is not a \<^verbatim>\<open>str\<close>). A \<^verbatim>\<open>str\<close> iterates over its characters, a \<^verbatim>\<open>dict\<close> over its
  keys.\<close>

definition py_join :: "string \<Rightarrow> json \<Rightarrow> string option" where
  "py_join sep v =
     (case v of
        JArray xs \<Rightarrow>
          (if list_all (\<lambda>x. json_str x \<noteq> None) xs
           then Some (intercalate sep (map (\<lambda>x. the (json_str x)) xs))
           else None)
      | JString s \<Rightarrow> Some (intercalate sep (map (\<lambda>c. [c]) s))
      | JObject kvs \<Rightarrow> Some (intercalate sep (map fst kvs))
      | _ \<Rightarrow> None)"

text \<open>\<^verbatim>\<open>int(x)\<close> on a float: truncation towards zero.\<close>

definition py_int :: "rat \<Rightarrow> int" where
  "py_int x = (if x < 0 then \<lceil>x\<rceil> else \<lfloor>x\<rfloor>)"

text \<open>The slices \<^verbatim>\<open>xs[:i]\<close> and \<^verbatim>\<open>xs[i:]\<close>: a negative bound counts from the end,
  and a bound outside the list is clipped.\<close>

definition slice_index :: "'a list \<Rightarrow> int \<Rightarrow> nat" where
  "slice_index xs i = nat (if i < 0 then int (length xs) + i else i)"

definition py_slice_to :: "'a list \<Rightarrow> int \<Rightarrow> 'a list" where
  "py_slice_to xs i = take (slice_index xs i) xs"

definition py_slice_from :: "'a list \<Rightarrow> int \<Rightarrow> 'a list" where
  "py_slice_from xs i = drop (slice_index xs i) xs"

subsection \<open>Doubles\<close>

text \<open>\<open>pow2 k\<close> is 2 to the power \<open>k\<close>, and \<open>binary_exponent x\<close>, for \<open>x > 0\<close>, is the
  \<open>e\<close> with \<open>pow2 e \<le> x < pow2 (e + 1)\<close> (\<open>bitlen i\<close> is the number of binary digits
  of \<open>i\<close>).\<close>

definition pow2 :: "int \<Rightarrow> rat" where
  "pow2 k = (if 0 \<le> k then 2 ^ nat k else 1 / 2 ^ nat (- k))"

definition binary_exponent :: "rat \<Rightarrow> int" where
  "binary_exponent x =
     (if 1 \<le> x then bitlen \<lfloor>x\<rfloor> - 1 else - bitlen (\<lceil>1 / x\<rceil> - 1))"

text \<open>The nearest integer, a tie going to the even one.\<close>

definition round_half_even :: "rat \<Rightarrow> int" where
  "round_half_even q =
     (let f = \<lfloor>q\<rfloor>; r = q - of_int f
      in if r < 1 / 2 then f else if 1 / 2 < r then f + 1 else if even f then f else f + 1)"

text \<open>The double nearest to \<open>x\<close> (binary64: 53 significant bits, least exponent -1022),
  ties to even; it is the value of the literal \<open>x\<close>, of \<^verbatim>\<open>float(x)\<close> for an \<^verbatim>\<open>int\<close>, and of
  an arithmetic operation whose exact result is \<open>x\<close>. A result of magnitude \<open>2 ^ 1024\<close>
  or more is outside the embedding.\<close>

definition round_double :: "rat \<Rightarrow> rat" where
  "round_double x =
     (if x = 0 then 0
      else
        let e = max (binary_exponent \<bar>x\<bar>) (- 1022);
            ulp = pow2 (e - 52)
        in of_int (round_half_even (x / ulp)) * ulp)"

definition double_of_int :: "int \<Rightarrow> rat" where
  "double_of_int i = round_double (of_int i)"

definition double_mul :: "rat \<Rightarrow> rat \<Rightarrow> rat" where
  "double_mul a b = round_double (a * b)"

subsection \<open>The state of a memory manager\<close>

text \<open>An entry of \<^verbatim>\<open>history_buffer\<close>. An entry that \<^verbatim>\<open>add_interaction\<close> appends has
  all four keys; one read back from a row written before token tracking has no
  \<^verbatim>\<open>token_count\<close> (\<open>None\<close>).\<close>

record interaction =
  prompt :: string
  response :: string
  timestamp :: string
  token_count :: "int option"

text \<open>The settings of a manager. \<open>safety_margin\<close> and \<open>smoothing_factor\<close> hold the numbers
  the configuration writes (0.9, 0.8).\<close>

record config =
  user_id :: int
  session_number :: int
  tok_K :: int
  min_interactions :: int
  max_interactions :: int
  smoothing_factor :: rat
  safety_margin :: rat

record memory =
  summary_json :: "string option"
  history_buffer :: "interaction list"
  token_buffer :: "int list"
  current_token_sum :: int

text \<open>\<^verbatim>\<open>self.adaptive_threshold = self.tok_K * self.safety_margin\<close>: the product of the
  \<^verbatim>\<open>int\<close> \<^verbatim>\<open>tok_K\<close>, converted to \<^verbatim>\<open>float\<close>, and the double that the safety margin of
  the configuration denotes.\<close>

definition adaptive_threshold :: "config \<Rightarrow> rat" where
  "adaptive_threshold cfg =
     double_mul (double_of_int (tok_K cfg)) (round_double (safety_margin cfg))"

text \<open>\<^verbatim>\<open>interaction.get('token_count', 0)\<close>\<close>

definition get_token_count :: "interaction \<Rightarrow> int" where
  "get_token_count i = (case token_count i of None \<Rightarrow> 0 | Some t \<Rightarrow> t)"

subsection \<open>\<^verbatim>\<open>_calculate_dynamic_threshold\<close>\<close>

text \<open>\<^verbatim>\<open>[smoothing_factor ** (n - 1 - i) for i in range(n)]\<close>\<close>

definition smoothing_weights :: "rat \<Rightarrow> nat \<Rightarrow> rat list" where
  "smoothing_weights sf n = map (\<lambda>i. sf ^ (n - 1 - i)) [0..<n]"

text \<open>The value of \<^verbatim>\<open>avg_tokens\<close>, for a token buffer that is not empty.\<close>

definition avg_tokens :: "config \<Rightarrow> int list \<Rightarrow> rat" where
  "avg_tokens cfg tb =
     (if length tb = 1 then of_int (hd tb)
      else
        let weights = smoothing_weights (smoothing_factor cfg) (length tb);
            weighted_sum = sum_list (map (\<lambda>(token, weight). of_int token * weight) (zip tb weights));
            weight_sum = sum_list weights
        in if weight_sum > 0 then weighted_sum / weight_sum else of_int (last tb))"

definition calculate_dynamic_threshold :: "config \<Rightarrow> memory \<Rightarrow> py_error + int" where
  "calculate_dynamic_threshold cfg m =
     (if token_buffer m = [] then Inr (min_interactions cfg)
      else
        let avg = avg_tokens cfg (token_buffer m)
        in if avg = 0 then Inl ZeroDivisionError
           else
             let optimal_k = max 1 (py_int (adaptive_threshold cfg / avg));
                 dynamic_k = max (min_interactions cfg) (min (max_interactions cfg) optimal_k)
             in Inr dynamic_k)"

subsection \<open>\<^verbatim>\<open>_should_trigger_summarization\<close>\<close>

text \<open>The method returns its answer and stores the token sum in
  \<^verbatim>\<open>self.current_token_sum\<close> on the paths that compute it.\<close>

definition should_trigger_summarization :: "config \<Rightarrow> memory \<Rightarrow> bool \<times> memory" where
  "should_trigger_summarization cfg m =
     (if int (length (history_buffer m)) < min_interactions cfg then (False, m)
      else
        let m' = m\<lparr>current_token_sum := sum_list (token_buffer m)\<rparr>
        in if of_int (current_token_sum m') \<ge> adaptive_threshold cfg then (True, m')
           else if int (length (history_buffer m')) \<ge> max_interactions cfg then (True, m')
           else (False, m'))"

subsection \<open>The summarization backend\<close>

text \<open>The collaborators outside the repository.
  \<^item> \<open>json_loads s\<close> is \<^verbatim>\<open>json.loads(s)\<close>; \<open>None\<close> where it raises
    \<^verbatim>\<open>json.JSONDecodeError\<close>.
  \<^item> \<open>json_dumps v\<close> is \<^verbatim>\<open>json.dumps(v)\<close>.
  \<^item> \<open>llm_complete previous_summary_json conversation_log\<close> is the text
    \<^verbatim>\<open>response.choices[0].message.content\<close> of the chat completion that
    \<^verbatim>\<open>Summarizer.summarize\<close> requests; \<open>None\<close> where the request raises or its
    response holds no text. The prompt that is sent is a function of these two
    arguments, so the completion is given them instead of the prompt text.
  \<^item> \<open>db_insert_ok\<close> tells whether the \<^verbatim>\<open>INSERT INTO chat_history\<close> goes through;
    \<open>False\<close> where it raises \<^verbatim>\<open>sqlite3.Error\<close>.
  Whether \<^verbatim>\<open>get_db_connection()\<close> returns a connection is an argument of
  \<open>add_interaction_call\<close> below.\<close>

record env =
  json_loads :: "string \<Rightarrow> json option"
  json_dumps :: "json \<Rightarrow> string"
  llm_complete :: "string option \<Rightarrow> interaction list \<Rightarrow> string option"
  db_insert_ok :: bool

text \<open>The first \<^verbatim>\<open>try\<close> block of \<^verbatim>\<open>Summarizer.summarize\<close>, which renders the previous
  summary into the prompt. Its handler catches \<^verbatim>\<open>json.JSONDecodeError\<close> and
  \<^verbatim>\<open>TypeError\<close>; \<^verbatim>\<open>summary_data.get\<close> on a value that is not a \<^verbatim>\<open>dict\<close> raises
  \<^verbatim>\<open>AttributeError\<close>, which leaves the method. The result is the exception, if one
  leaves the block.\<close>

definition render_previous_summary :: "env \<Rightarrow> string option \<Rightarrow> py_error option" where
  "render_previous_summary e previous_summary_json =
     (if truthy_str previous_summary_json then
        (case json_loads e (the previous_summary_json) of
           None \<Rightarrow> None
         | Some summary_data \<Rightarrow>
             (case json_get summary_data ''interactions'' (JArray []) of
                Inl err \<Rightarrow> Some err
              | Inr _ \<Rightarrow>
                  (case json_get summary_data ''important_details'' (JArray []) of
                     Inl err \<Rightarrow> Some err
                   | Inr _ \<Rightarrow> None)))
      else None)"

text \<open>\<^verbatim>\<open>Summarizer.summarize\<close>: the new summary text; the previous one when the log is
  empty, when the completion raises or when its text is not JSON.\<close>

definition summarize :: "env \<Rightarrow> string option \<Rightarrow> interaction list \<Rightarrow> py_error + string option" where
  "summarize e previous_summary_json conversation_log =
     (if conversation_log = [] then Inr previous_summary_json
      else
        (case render_previous_summary e previous_summary_json of
           Some err \<Rightarrow> Inl err
         | None \<Rightarrow>
             (case llm_complete e previous_summary_json conversation_log of
                None \<Rightarrow> Inr previous_summary_json
              | Some summary_json_str \<Rightarrow>
                  (case json_loads e summary_json_str of
                     None \<Rightarrow> Inr previous_summary_json
                   | Some _ \<Rightarrow> Inr (Some summary_json_str)))))"

text \<open>Whether the backend call of \<^verbatim>\<open>summarize\<close> fails: the completion raises, or
  its text does not validate as JSON.\<close>

definition backend_fails :: "env \<Rightarrow> string option \<Rightarrow> interaction list \<Rightarrow> bool" where
  "backend_fails e previous_summary_json conversation_log =
     (case llm_complete e previous_summary_json conversation_log of
        None \<Rightarrow> True
      | Some summary_json_str \<Rightarrow> json_loads e summary_json_str = None)"

subsection \<open>\<^verbatim>\<open>_adaptive_prune\<close>\<close>

text \<open>The retention strategy of \<^verbatim>\<open>_adaptive_prune\<close>: \<^verbatim>\<open>to_summarize\<close>,
  \<^verbatim>\<open>to_summarize_tokens\<close>, \<^verbatim>\<open>retained\<close> and \<^verbatim>\<open>retained_tokens\<close>, in this order.\<close>

definition prune_partition ::
  "int \<Rightarrow> memory \<Rightarrow> interaction list \<times> int list \<times> interaction list \<times> int list" where
  "prune_partition dynamic_k m =
     (if int (length (history_buffer m)) \<le> dynamic_k then
        let split_point = max 1 (int (length (history_buffer m)) div 2)
        in (py_slice_to (history_buffer m) split_point,
            py_slice_to (token_buffer m) split_point,
            py_slice_from (history_buffer m) split_point,
            py_slice_from (token_buffer m) split_point)
      else
        (py_slice_to (history_buffer m) (- dynamic_k),
         py_slice_to (token_buffer m) (- dynamic_k),
         py_slice_from (history_buffer m) (- dynamic_k),
         py_slice_from (token_buffer m) (- dynamic_k)))"

definition adaptive_prune :: "env \<Rightarrow> config \<Rightarrow> memory \<Rightarrow> py_error option \<times> memory" where
  "adaptive_prune e cfg m =
     (case calculate_dynamic_threshold cfg m of
        Inl err \<Rightarrow> (Some err, m)
      | Inr dynamic_k \<Rightarrow>
          (case prune_partition dynamic_k m of
             (to_summarize, to_summarize_tokens, retained, retained_tokens) \<Rightarrow>
               (case summarize e (summary_json m) to_summarize of
                  Inl err \<Rightarrow> (Some err, m)
                | Inr new_summary \<Rightarrow>
                    if truthy_str new_summary
                    then (None, m\<lparr>summary_json := new_summary,
                                  history_buffer := retained,
                                  token_buffer := retained_tokens\<rparr>)
                    else (None, m))))"

subsection \<open>\<^verbatim>\<open>add_interaction\<close> and the transcript\<close>

text \<open>A row of the table \<^verbatim>\<open>chat_history\<close>.\<close>

record chat_row =
  row_user_id :: int
  row_session_number :: int
  row_prompt :: string
  row_response :: string
  row_timestamp :: string
  row_token_count :: int

text \<open>\<^verbatim>\<open>_log_interaction_to_db\<close> from its \<^verbatim>\<open>try\<close> on, that is, once
  \<^verbatim>\<open>get_db_connection()\<close> has returned a connection: the insert is committed, or it
  raises \<^verbatim>\<open>sqlite3.Error\<close>, which the handler logs and drops.\<close>

definition log_interaction_to_db ::
  "env \<Rightarrow> config \<Rightarrow> string \<Rightarrow> string \<Rightarrow> string \<Rightarrow> int \<Rightarrow> chat_row list \<Rightarrow> chat_row list" where
  "log_interaction_to_db e cfg p r ts tc chat_history =
     (if db_insert_ok e
      then chat_history @
           [\<lparr>row_user_id = user_id cfg, row_session_number = session_number cfg,
             row_prompt = p, row_response = r, row_timestamp = ts, row_token_count = tc\<rparr>]
      else chat_history)"

text \<open>The two appends of \<^verbatim>\<open>add_interaction\<close>.\<close>

definition append_interaction :: "string \<Rightarrow> string \<Rightarrow> string \<Rightarrow> int \<Rightarrow> memory \<Rightarrow> memory" where
  "append_interaction p r ts tc m =
     m\<lparr>history_buffer := history_buffer m @
          [\<lparr>prompt = p, response = r, timestamp = ts, token_count = Some tc\<rparr>],
       token_buffer := token_buffer m @ [tc]\<rparr>"

text \<open>\<^verbatim>\<open>add_interaction\<close>, for a call in which \<^verbatim>\<open>get_db_connection()\<close> returns a
  connection; \<open>now\<close> is the clock reading \<^verbatim>\<open>datetime.now(timezone.utc).isoformat()\<close>. The
  result is the exception that leaves the call (if any), the memory and the transcript
  afterwards.\<close>

definition add_interaction ::
  "env \<Rightarrow> config \<Rightarrow> string \<Rightarrow> string \<Rightarrow> string \<Rightarrow> int \<Rightarrow> string option \<Rightarrow>
   memory \<times> chat_row list \<Rightarrow> py_error option \<times> memory \<times> chat_row list" where
  "add_interaction e cfg now p r response_token_count full_response_for_history st =
     (case st of (m, chat_history) \<Rightarrow>
        let db_response = (case full_response_for_history of None \<Rightarrow> r | Some full \<Rightarrow> full);
            chat_history' = log_interaction_to_db e cfg p db_response now response_token_count chat_history;
            m1 = append_interaction p r now response_token_count m
        in (case should_trigger_summarization cfg m1 of
              (True, m2) \<Rightarrow> (case adaptive_prune e cfg m2 of (err, m3) \<Rightarrow> (err, m3, chat_history'))
            | (False, m2) \<Rightarrow> (None, m2, chat_history')))"

text \<open>\<^verbatim>\<open>_log_interaction_to_db\<close> as a whole. Its first statement,
  \<^verbatim>\<open>conn = get_db_connection()\<close>, stands before the \<^verbatim>\<open>try\<close>: when the connection cannot
  be opened, or its \<^verbatim>\<open>PRAGMA\<close> fails (\<open>conn_ok\<close> is \<open>False\<close>), the \<^verbatim>\<open>sqlite3.Error\<close>
  leaves the method.\<close>

definition log_interaction_to_db_call ::
  "bool \<Rightarrow> env \<Rightarrow> config \<Rightarrow> string \<Rightarrow> string \<Rightarrow> string \<Rightarrow> int \<Rightarrow> chat_row list \<Rightarrow>
   py_error + chat_row list" where
  "log_interaction_to_db_call conn_ok e cfg p r ts tc chat_history =
     (if conn_ok then Inr (log_interaction_to_db e cfg p r ts tc chat_history)
      else Inl DatabaseError)"

text \<open>\<^verbatim>\<open>add_interaction\<close> as a whole: an exception of \<^verbatim>\<open>_log_interaction_to_db\<close> leaves
  the call before anything is appended.\<close>

definition add_interaction_call ::
  "bool \<Rightarrow> env \<Rightarrow> config \<Rightarrow> string \<Rightarrow> string \<Rightarrow> string \<Rightarrow> int \<Rightarrow> string option \<Rightarrow>
   memory \<times> chat_row list \<Rightarrow> py_error option \<times> memory \<times> chat_row list" where
  "add_interaction_call conn_ok e cfg now p r response_token_count full_response_for_history st =
     (case st of (m, chat_history) \<Rightarrow>
        (case log_interaction_to_db_call conn_ok e cfg p
                (case full_response_for_history of None \<Rightarrow> r | Some full \<Rightarrow> full)
                now response_token_count chat_history of
           Inl err \<Rightarrow> (Some err, m, chat_history)
         | Inr logged \<Rightarrow>
             add_interaction e cfg now p r response_token_count full_response_for_history st))"

subsection \<open>\<^verbatim>\<open>__init__\<close> and \<^verbatim>\<open>_load_from_db\<close>\<close>

text \<open>The row of \<^verbatim>\<open>conversation_memory\<close> for the session, if there is one: the column
  \<^verbatim>\<open>summary_json\<close>, and the decoded column \<^verbatim>\<open>history_buffer\<close> (\<open>None\<close> when the
  column is NULL or the empty text).\<close>

type_synonym memory_row = "string option \<times> interaction list option"

definition load_from_db :: "memory_row option \<Rightarrow> memory" where
  "load_from_db row =
     (let m0 = \<lparr>summary_json = None, history_buffer = [], token_buffer = [],
                current_token_sum = 0\<rparr>
      in case row of
           None \<Rightarrow> m0
         | Some (sj, hb) \<Rightarrow>
             (case hb of
                None \<Rightarrow> m0\<lparr>summary_json := sj\<rparr>
              | Some loaded_buffer \<Rightarrow>
                  m0\<lparr>summary_json := sj,
                     history_buffer := loaded_buffer,
                     token_buffer := map get_token_count loaded_buffer\<rparr>))"

text \<open>The states of a manager between calls: what \<^verbatim>\<open>__init__\<close> builds from the
  stored row, and what any call of \<^verbatim>\<open>add_interaction\<close> leaves, whether it returns or
  raises, whatever the backend and the database do.\<close>

inductive reachable :: "config \<Rightarrow> memory \<Rightarrow> bool" for cfg :: config where
  loaded: "reachable cfg (load_from_db row)"
| added: "reachable cfg m \<Longrightarrow>
          add_interaction e cfg now p r tc full (m, chat_history) = (err, m', chat_history') \<Longrightarrow>
          reachable cfg m'"

subsection \<open>\<^verbatim>\<open>get_context\<close>\<close>

record message =
  role :: string
  content :: string

definition newline :: string where
  "newline = [CHR 0x0A]"

text \<open>The \<^verbatim>\<open>try\<close> block of \<^verbatim>\<open>get_context\<close>: the system message, when the block
  appends one; no message when its handler catches \<^verbatim>\<open>json.JSONDecodeError\<close> or
  \<^verbatim>\<open>TypeError\<close>; the exception, when one leaves the block.\<close>

definition summary_message :: "env \<Rightarrow> string \<Rightarrow> py_error + message option" where
  "summary_message e s =
     (case json_loads e s of
        None \<Rightarrow> Inr None
      | Some summary_data \<Rightarrow>
          (case json_get summary_data ''interactions'' (JArray []) of
             Inl err \<Rightarrow> Inl err
           | Inr interactions \<Rightarrow>
               (case json_get summary_data ''important_details'' (JArray []) of
                  Inl err \<Rightarrow> Inl err
                | Inr details \<Rightarrow>
                    let t0 = ''Here is a summary of the conversation so far:'' @ newline;
                        t1 = (if truthy interactions
                              then t0 @ ''- Key topics discussed: '' @ json_dumps e interactions @ newline
                              else t0)
                    in if truthy details
                       then (case py_join '', '' details of
                               None \<Rightarrow> Inr None
                             | Some joined \<Rightarrow>
                                 Inr (Some \<lparr>role = ''system'',
                                            content = t1 @ ''- Important details to remember: '' @
                                                      joined @ newline\<rparr>))
                       else Inr (Some \<lparr>role = ''system'', content = t1\<rparr>))))"

text \<open>The loop over \<^verbatim>\<open>history_buffer\<close>.\<close>

fun history_messages :: "interaction list \<Rightarrow> message list" where
  "history_messages [] = []"
| "history_messages (i # rest) =
     (if prompt i \<noteq> [] then [\<lparr>role = ''user'', content = prompt i\<rparr>] else []) @
     (if response i \<noteq> [] then [\<lparr>role = ''assistant'', content = response i\<rparr>] else []) @
     history_messages rest"

definition get_context :: "env \<Rightarrow> memory \<Rightarrow> py_error + message list" where
  "get_context e m =
     (if truthy_str (summary_json m) then
        (case summary_message e (the (summary_json m)) of
           Inl err \<Rightarrow> Inl err
         | Inr None \<Rightarrow> Inr (history_messages (history_buffer m))
         | Inr (Some msg) \<Rightarrow> Inr (msg # history_messages (history_buffer m)))
      else Inr (history_messages (history_buffer m)))"

subsection \<open>\<^verbatim>\<open>count_tokens\<close> (routes/chat.py)\<close>

text \<open>The library \<^verbatim>\<open>tiktoken\<close>: whether \<^verbatim>\<open>tiktoken.get_encoding(name)\<close> returns an
  encoding, and \<^verbatim>\<open>len(encoding.encode(text))\<close> for the encoding of that name
  (\<open>None\<close> where \<^verbatim>\<open>encode\<close> raises).\<close>

record tiktoken =
  get_encoding_ok :: "string \<Rightarrow> bool"
  encode_len :: "string \<Rightarrow> string \<Rightarrow> nat option"

definition model_tokenizer_map :: "(string \<times> string) list" where
  "model_tokenizer_map =
     [(''meta-llama/Llama-3.3-70B-Instruct-Turbo'', ''cl100k_base''),
      (''meta-llama/Llama-3.3-70B-Instruct-Turbo-Free'', ''cl100k_base''),
      (''meta-llama/Meta-Llama-3.1-8B-Instruct-Turbo'', ''cl100k_base''),
      (''meta-llama/Meta-Llama-3.1-70B-Instruct-Turbo'', ''cl100k_base''),
      (''Qwen/Qwen3-235B-A22B-fp8-tput'', ''cl100k_base''),
      (''Qwen/Qwen2.5-VL-72B-Instruct'', ''cl100k_base''),
      (''Qwen/Qwen2.5-72B-Instruct-Turbo'', ''cl100k_base''),
      (''Qwen/Qwen3-Coder-480B-A35B-Instruct-FP8'', ''cl100k_base''),
      (''default'', ''cl100k_base'')]"

text \<open>\<^verbatim>\<open>get_tokenizer_for_model\<close>: the name of the encoding it returns; \<open>None\<close> where
  the call in its handler raises as well.\<close>

definition get_tokenizer_for_model :: "tiktoken \<Rightarrow> string \<Rightarrow> string option" where
  "get_tokenizer_for_model tk model_name =
     (let encoding_name = (case map_of model_tokenizer_map model_name of
                             None \<Rightarrow> ''cl100k_base'' | Some n \<Rightarrow> n)
      in if get_encoding_ok tk encoding_name then Some encoding_name
         else if get_encoding_ok tk ''cl100k_base'' then Some ''cl100k_base''
         else None)"

text \<open>The argument \<^verbatim>\<open>text\<close>: a \<^verbatim>\<open>str\<close>, or a value of another type (\<^verbatim>\<open>None\<close>, a
  number, a list) with its truth value.\<close>

datatype text_arg = Str string | NotStr bool

text \<open>The steps of \<^verbatim>\<open>count_tokens\<close> after its first test: \<open>None\<close> where one of them
  raises.\<close>

definition tokenizer_path :: "tiktoken \<Rightarrow> string \<Rightarrow> string \<Rightarrow> nat option" where
  "tokenizer_path tk s model_name =
     (case get_tokenizer_for_model tk model_name of
        None \<Rightarrow> None
      | Some enc \<Rightarrow> encode_len tk enc s)"

definition count_tokens :: "tiktoken \<Rightarrow> text_arg \<Rightarrow> string \<Rightarrow> int" where
  "count_tokens tk text model_name =
     (case text of
        NotStr b \<Rightarrow> 0
      | Str s \<Rightarrow>
          if s = [] then 0
          else (case tokenizer_path tk s model_name of
                  Some n \<Rightarrow> int n
                | None \<Rightarrow> max 1 (int (length s) div 4)))"

subsection \<open>The split index and the buffer invariant\<close>

text \<open>The index at which \<^verbatim>\<open>_adaptive_prune\<close> is said to cut a buffer of length \<open>n\<close>:
  \<open>max 1 (n div 2)\<close> when \<open>n \<le> dynamic_k\<close>, and \<open>n - dynamic_k\<close> otherwise.\<close>

definition split_index :: "int \<Rightarrow> nat \<Rightarrow> nat" where
  "split_index dynamic_k n = (if int n \<le> dynamic_k then max 1 (n div 2) else n - nat dynamic_k)"

text \<open>Entry \<open>i\<close> of the token buffer is the token count of entry \<open>i\<close> of the history
  buffer.\<close>

definition buffers_agree :: "memory \<Rightarrow> bool" where
  "buffers_agree m = (token_buffer m = map get_token_count (history_buffer m))"

subsection \<open>Concrete inputs\<close>

text \<open>The defaults of \<^verbatim>\<open>config.py\<close>.\<close>

definition default_config :: config where
  "default_config =
     \<lparr>user_id = 1, session_number = 1, tok_K = 3000, min_interactions = 2,
      max_interactions = 50, smoothing_factor = 4 / 5, safety_margin = 9 / 10\<rparr>"

text \<open>The configuration of the scenario with three interactions of 40 tokens.\<close>

definition scenario_config :: config where
  "scenario_config =
     \<lparr>user_id = 1, session_number = 1, tok_K = 100, min_interactions = 2,
      max_interactions = 50, smoothing_factor = 4 / 5, safety_margin = 9 / 10\<rparr>"

text \<open>The defaults with a safety margin of 0.55.\<close>

definition narrow_margin_config :: config where
  "narrow_margin_config =
     \<lparr>user_id = 1, session_number = 1, tok_K = 3000, min_interactions = 2,
      max_interactions = 50, smoothing_factor = 4 / 5, safety_margin = 11 / 20\<rparr>"

text \<open>A configuration whose two interaction bounds are zero.\<close>

definition zero_bounds_config :: config where
  "zero_bounds_config =
     \<lparr>user_id = 1, session_number = 1, tok_K = 3000, min_interactions = 0,
      max_interactions = 0, smoothing_factor = 4 / 5, safety_margin = 9 / 10\<rparr>"

definition mk_interaction :: "string \<Rightarrow> string \<Rightarrow> string \<Rightarrow> int \<Rightarrow> interaction" where
  "mk_interaction p r ts tc = \<lparr>prompt = p, response = r, timestamp = ts, token_count = Some tc\<rparr>"

text \<open>\<^verbatim>\<open>json.loads\<close> on the two texts the inputs below store as a summary: \<^verbatim>\<open>{}\<close>
  decodes to the empty \<^verbatim>\<open>dict\<close> and \<^verbatim>\<open>[]\<close> to the empty \<^verbatim>\<open>list\<close>. No other text is
  decoded by these inputs.\<close>

definition sample_loads :: "string \<Rightarrow> json option" where
  "sample_loads s =
     (if s = ''{}'' then Some (JObject []) else if s = ''[]'' then Some (JArray []) else None)"

text \<open>An environment in which the completion raises and the insert raises
  \<^verbatim>\<open>sqlite3.Error\<close>, and one in which the completion returns \<^verbatim>\<open>{}\<close> and the insert
  goes through. No input below reaches a call of \<^verbatim>\<open>json.dumps\<close>.\<close>

definition failing_env :: env where
  "failing_env =
     \<lparr>json_loads = sample_loads, json_dumps = (\<lambda>v. ''[]''),
      llm_complete = (\<lambda>previous_summary_json conversation_log. None),
      db_insert_ok = False\<rparr>"

definition working_env :: env where
  "working_env =
     \<lparr>json_loads = sample_loads, json_dumps = (\<lambda>v. ''[]''),
      llm_complete = (\<lambda>previous_summary_json conversation_log. Some ''{}''),
      db_insert_ok = True\<rparr>"

text \<open>A tokenizer library in which every call raises.\<close>

definition broken_tiktoken :: tiktoken where
  "broken_tiktoken = \<lparr>get_encoding_ok = (\<lambda>name. False), encode_len = (\<lambda>name s. None)\<rparr>"

text \<open>The memory after \<open>n\<close> interactions with an empty response, which
  \<^verbatim>\<open>count_tokens\<close> counts as 0 tokens.\<close>

definition silent :: "nat \<Rightarrow> memory" where
  "silent n =
     \<lparr>summary_json = None,
      history_buffer = replicate n (mk_interaction ''ping'' [] ''2025-08-29T21:44:30+00:00'' 0),
      token_buffer = replicate n 0,
      current_token_sum = 0\<rparr>"

text \<open>Three interactions of 40 tokens each, and the memory that holds them.\<close>

definition first_turn :: interaction where
  "first_turn = mk_interaction ''one?'' ''one.'' ''2025-08-29T21:44:31+00:00'' 40"

definition second_turn :: interaction where
  "second_turn = mk_interaction ''two?'' ''two.'' ''2025-08-29T21:44:32+00:00'' 40"

definition third_turn :: interaction where
  "third_turn = mk_interaction ''three?'' ''three.'' ''2025-08-29T21:44:33+00:00'' 40"

definition three_turns :: "string option \<Rightarrow> memory" where
  "three_turns sj =
     \<lparr>summary_json = sj, history_buffer = [first_turn, second_turn, third_turn],
      token_buffer = [40, 40, 40], current_token_sum = 120\<rparr>"

text \<open>The scenario run with \<open>working_env\<close>: the results of the three calls of
  \<^verbatim>\<open>add_interaction\<close>, from the empty memory and the empty transcript.\<close>

definition after_first :: "py_error option \<times> memory \<times> chat_row list" where
  "after_first =
     add_interaction working_env scenario_config ''2025-08-29T21:44:31+00:00'' ''one?'' ''one.'' 40
       None (load_from_db None, [])"

definition after_second :: "py_error option \<times> memory \<times> chat_row list" where
  "after_second =
     add_interaction working_env scenario_config ''2025-08-29T21:44:32+00:00'' ''two?'' ''two.'' 40
       None (snd after_first)"

definition after_third :: "py_error option \<times> memory \<times> chat_row list" where
  "after_third =
     add_interaction working_env scenario_config ''2025-08-29T21:44:33+00:00'' ''three?'' ''three.''
       40 None (snd after_second)"

section \<open>Properties\<close>

subsection \<open>Slices\<close>

lemma slice_index_nonneg: "0 \<le> i \<Longrightarrow> slice_index xs i = nat i"
  by (simp add: slice_index_def)

lemma slice_index_minus: "0 < k \<Longrightarrow> slice_index xs (- k) = length xs - nat k"
  by (simp add: slice_index_def)

lemma py_slice_to_map: "py_slice_to (map f xs) i = map f (py_slice_to xs i)"
  by (simp add: py_slice_to_def slice_index_def take_map)

lemma py_slice_from_map: "py_slice_from (map f xs) i = map f (py_slice_from xs i)"
  by (simp add: py_slice_from_def slice_index_def drop_map)

lemma split_point_nat: "nat (max 1 (int n div 2)) = max 1 (n div 2)"
  by (simp add: max_def nat_div_distrib)

subsection \<open>The adaptive threshold\<close>

text \<open>The double for 0.9 lies a little above 0.9; its products with 100 and with 3000
  round to 90 and to 2700. The double for 0.55 lies above 0.55 as well, and its product
  with 3000 rounds to the next double after 1650.\<close>

lemma round_double_nine_tenths:
  "round_double (9 / 10) = 8106479329266893 / 9007199254740992"
  by code_simp

lemma round_double_hundred: "round_double 100 = 100"
  by code_simp

lemma round_double_three_thousand: "round_double 3000 = 3000"
  by code_simp

lemma round_double_ninety:
  "round_double (100 * (8106479329266893 / 9007199254740992)) = 90"
  by code_simp

lemma round_double_twenty_seven_hundred:
  "round_double (3000 * (8106479329266893 / 9007199254740992)) = 2700"
  by code_simp

lemma round_double_narrow:
  "round_double (11 / 20) = 2476979795053773 / 4503599627370496"
  by code_simp

lemma round_double_narrow_product:
  "round_double (3000 * (2476979795053773 / 4503599627370496)) =
     7256776743321601 / 4398046511104"
  by code_simp

lemma adaptive_threshold_scenario:
  assumes "tok_K cfg = 100" and "safety_margin cfg = 9 / 10"
  shows "adaptive_threshold cfg = 90"
  unfolding adaptive_threshold_def double_mul_def double_of_int_def assms
  by (simp only: of_int_numeral round_double_nine_tenths round_double_hundred round_double_ninety)

lemma adaptive_threshold_defaults:
  assumes "tok_K cfg = 3000" and "safety_margin cfg = 9 / 10"
  shows "adaptive_threshold cfg = 2700"
  unfolding adaptive_threshold_def double_mul_def double_of_int_def assms
  by (simp only: of_int_numeral round_double_nine_tenths round_double_three_thousand
      round_double_twenty_seven_hundred)

lemma adaptive_threshold_narrow:
  "adaptive_threshold narrow_margin_config = 7256776743321601 / 4398046511104"
proof -
  have "tok_K narrow_margin_config = 3000" and "safety_margin narrow_margin_config = 11 / 20"
    by (simp_all add: narrow_margin_config_def)
  then show ?thesis
    unfolding adaptive_threshold_def double_mul_def double_of_int_def
    by (simp only: of_int_numeral round_double_narrow round_double_three_thousand
        round_double_narrow_product)
qed

subsection \<open>The steps of \<^verbatim>\<open>add_interaction\<close>\<close>

lemma should_trigger_keeps:
  "token_buffer (snd (should_trigger_summarization cfg m)) = token_buffer m"
  "history_buffer (snd (should_trigger_summarization cfg m)) = history_buffer m"
  "summary_json (snd (should_trigger_summarization cfg m)) = summary_json m"
  by (simp_all add: should_trigger_summarization_def Let_def)

lemma add_interaction_quiet:
  assumes "\<not> fst (should_trigger_summarization cfg (append_interaction p r now tc m))"
  shows "add_interaction e cfg now p r tc full (m, db) =
           (None, snd (should_trigger_summarization cfg (append_interaction p r now tc m)),
            log_interaction_to_db e cfg p (case full of None \<Rightarrow> r | Some f \<Rightarrow> f) now tc db)"
  using assms by (auto simp: add_interaction_def Let_def split: prod.splits bool.splits)

lemma add_interaction_prunes:
  assumes "fst (should_trigger_summarization cfg (append_interaction p r now tc m))"
  shows "add_interaction e cfg now p r tc full (m, db) =
           (fst (adaptive_prune e cfg
                  (snd (should_trigger_summarization cfg (append_interaction p r now tc m)))),
            snd (adaptive_prune e cfg
                  (snd (should_trigger_summarization cfg (append_interaction p r now tc m)))),
            log_interaction_to_db e cfg p (case full of None \<Rightarrow> r | Some f \<Rightarrow> f) now tc db)"
  using assms by (auto simp: add_interaction_def Let_def split: prod.splits bool.splits)

subsection \<open>The two buffers stay parallel\<close>

lemma adaptive_prune_agree:
  assumes "buffers_agree m"
  shows "buffers_agree (snd (adaptive_prune e cfg m))"
  using assms
  by (auto simp: adaptive_prune_def buffers_agree_def prune_partition_def Let_def
        py_slice_to_map py_slice_from_map
      split: sum.splits prod.splits if_splits)

lemma should_trigger_agree:
  "buffers_agree (snd (should_trigger_summarization cfg m)) = buffers_agree m"
  by (simp add: should_trigger_summarization_def buffers_agree_def Let_def)

lemma append_interaction_agree:
  "buffers_agree m \<Longrightarrow> buffers_agree (append_interaction p r ts tc m)"
  by (simp add: append_interaction_def buffers_agree_def get_token_count_def)

lemma add_interaction_agree:
  assumes "buffers_agree m"
    and "add_interaction e cfg now p r tc full (m, db) = (err, m', db')"
  shows "buffers_agree m'"
proof -
  let ?m1 = "append_interaction p r now tc m"
  obtain t m2 where t: "should_trigger_summarization cfg ?m1 = (t, m2)"
    by force
  have m2: "buffers_agree m2"
    using should_trigger_agree[of cfg ?m1] append_interaction_agree[OF assms(1)] t by simp
  show ?thesis
  proof (cases t)
    case True
    then have "m' = snd (adaptive_prune e cfg m2)"
      using assms(2) t by (auto simp: add_interaction_def Let_def split: prod.splits)
    then show ?thesis
      using adaptive_prune_agree[OF m2] by simp
  next
    case False
    then have "m' = m2"
      using assms(2) t by (auto simp: add_interaction_def Let_def split: prod.splits)
    then show ?thesis
      using m2 by simp
  qed
qed

lemma load_from_db_agree: "buffers_agree (load_from_db row)"
  by (auto simp: load_from_db_def buffers_agree_def Let_def split: option.splits prod.splits)

lemma reachable_agree: "reachable cfg m \<Longrightarrow> buffers_agree m"
  by (induction rule: reachable.induct) (auto intro: load_from_db_agree add_interaction_agree)

text \<open>Claim C2. In every state reachable from a freshly loaded one by calls of
  \<^verbatim>\<open>add_interaction\<close> (pruning succeeding, failing or raising), the token buffer is as
  long as the history buffer, and its sum is the sum of the \<^verbatim>\<open>token_count\<close> fields of
  the history buffer, a missing field read as 0.\<close>

theorem reachable_buffers_parallel:
  "reachable cfg m \<Longrightarrow>
     length (token_buffer m) = length (history_buffer m) \<and>
     sum_list (token_buffer m) = sum_list (map get_token_count (history_buffer m))"
  using reachable_agree[of cfg m] by (simp add: buffers_agree_def)

theorem reachable_buffers_parallel_witness:
  "reachable default_config
     (load_from_db (Some (Some ''{}'',
        Some [\<lparr>prompt = ''hi'', response = ''hello'', timestamp = ''t'', token_count = None\<rparr>]))) \<and>
   length (token_buffer (load_from_db (Some (Some ''{}'',
        Some [\<lparr>prompt = ''hi'', response = ''hello'', timestamp = ''t'', token_count = None\<rparr>])))) =
   length (history_buffer (load_from_db (Some (Some ''{}'',
        Some [\<lparr>prompt = ''hi'', response = ''hello'', timestamp = ''t'', token_count = None\<rparr>])))) \<and>
   sum_list (token_buffer (load_from_db (Some (Some ''{}'',
        Some [\<lparr>prompt = ''hi'', response = ''hello'', timestamp = ''t'', token_count = None\<rparr>])))) =
   sum_list (map get_token_count (history_buffer (load_from_db (Some (Some ''{}'',
        Some [\<lparr>prompt = ''hi'', response = ''hello'', timestamp = ''t'', token_count = None\<rparr>])))))"
proof -
  let ?row = "Some (Some ''{}'',
        Some [\<lparr>prompt = ''hi'', response = ''hello'', timestamp = ''t'', token_count = None\<rparr>])"
  have r: "reachable default_config (load_from_db ?row)"
    by (rule reachable.loaded)
  show ?thesis
    using r reachable_buffers_parallel[OF r] by blast
qed

subsection \<open>The trigger predicate\<close>

text \<open>With a safety margin of 0.55 the threshold is the double after 1650, and two
  interactions of 825 tokens do not reach it.\<close>

lemma should_trigger_below_rounded_threshold:
  "\<not> fst (should_trigger_summarization narrow_margin_config
            \<lparr>summary_json = None,
             history_buffer = [mk_interaction ''a'' ''b'' ''t'' 825, mk_interaction ''c'' ''d'' ''u'' 825],
             token_buffer = [825, 825], current_token_sum = 0\<rparr>)"
proof -
  have bounds: "min_interactions narrow_margin_config = 2" "max_interactions narrow_margin_config = 50"
    by (simp_all add: narrow_margin_config_def)
  show ?thesis
    by (simp add: should_trigger_summarization_def adaptive_threshold_narrow bounds Let_def)
qed


subsection \<open>The tokens of a text\<close>

text \<open>Claim C9. \<^verbatim>\<open>count_tokens\<close> returns 0 for a text that is empty or not a
  \<^verbatim>\<open>str\<close>; for a \<^verbatim>\<open>str\<close> it returns an integer that is not negative (the function is
  total: it never raises); and when the tokenizer path raises it returns
  \<^verbatim>\<open>max(1, len(text) // 4)\<close>.\<close>

theorem count_tokens_cases:
  "count_tokens tk (NotStr b) model_name = 0 \<and>
   count_tokens tk (Str []) model_name = 0 \<and>
   0 \<le> count_tokens tk (Str s) model_name \<and>
   (s \<noteq> [] \<and> tokenizer_path tk s model_name = None \<longrightarrow>
      count_tokens tk (Str s) model_name = max 1 (int (length s) div 4))"
  by (auto simp: count_tokens_def split: option.splits)

theorem count_tokens_cases_witness:
  "''hello world!'' \<noteq> [] \<and>
   tokenizer_path broken_tiktoken ''hello world!'' ''default'' = None \<and>
   count_tokens broken_tiktoken (Str ''hello world!'') ''default'' = 3 \<and>
   count_tokens broken_tiktoken (Str ''abc'') ''default'' = 1"
proof -
  have h: "tokenizer_path broken_tiktoken s ''default'' = None" for s
    by (simp add: tokenizer_path_def get_tokenizer_for_model_def broken_tiktoken_def Let_def)
  have a: "count_tokens broken_tiktoken (Str ''hello world!'') ''default'' = 3"
    using count_tokens_cases[of broken_tiktoken _ "''default''" "''hello world!''"] h by simp
  have b: "count_tokens broken_tiktoken (Str ''abc'') ''default'' = 1"
    using count_tokens_cases[of broken_tiktoken _ "''default''" "''abc''"] h by simp
  show ?thesis
    using a b h by simp
qed

subsection \<open>The dynamic retention size\<close>

text \<open>Claim C5. The claim is that \<^verbatim>\<open>_calculate_dynamic_threshold\<close> returns the clamped
  quotient of the adaptive threshold by the smoothed average for every token buffer that
  is not empty. For a buffer whose smoothed average is 0 the code returns nothing: the
  division \<^verbatim>\<open>self.adaptive_threshold / avg_tokens\<close> raises \<^verbatim>\<open>ZeroDivisionError\<close>. Here
  the buffer holds one interaction of 0 tokens, under the default configuration.\<close>

theorem calculate_dynamic_threshold_zero_average:
  "token_buffer (silent 1) = [0] \<and>
   calculate_dynamic_threshold default_config (silent 1) = Inl ZeroDivisionError"
  by (simp add: calculate_dynamic_threshold_def avg_tokens_def silent_def)

subsection \<open>The retention strategy\<close>

text \<open>When \<^verbatim>\<open>dynamic_k\<close> is at least 1 both buffers are cut at the same index, which is
  \<open>max 1 (n div 2)\<close> if \<open>n \<le> dynamic_k\<close> and \<open>n - dynamic_k\<close> otherwise; the two parts
  together have \<open>n\<close> entries and the part to summarize is not empty. \<^verbatim>\<open>dynamic_k\<close> is at
  least 1 as soon as one of the two interaction bounds is.\<close>

lemma prune_partition_split:
  assumes "calculate_dynamic_threshold cfg m = Inr k" and "0 < k"
    and "history_buffer m \<noteq> []"
    and "length (token_buffer m) = length (history_buffer m)"
  shows "prune_partition k m =
           (take (split_index k (length (history_buffer m))) (history_buffer m),
            take (split_index k (length (history_buffer m))) (token_buffer m),
            drop (split_index k (length (history_buffer m))) (history_buffer m),
            drop (split_index k (length (history_buffer m))) (token_buffer m)) \<and>
         length (take (split_index k (length (history_buffer m))) (history_buffer m)) +
           length (drop (split_index k (length (history_buffer m))) (history_buffer m)) =
           length (history_buffer m) \<and>
         take (split_index k (length (history_buffer m))) (history_buffer m) \<noteq> []"
proof -
  let ?n = "length (history_buffer m)"
  have n: "0 < ?n"
    using assms(3) by simp
  have pos: "0 < split_index k ?n"
    using n assms(2) by (auto simp: split_index_def)
  have part: "prune_partition k m =
           (take (split_index k ?n) (history_buffer m), take (split_index k ?n) (token_buffer m),
            drop (split_index k ?n) (history_buffer m), drop (split_index k ?n) (token_buffer m))"
  proof (cases "int ?n \<le> k")
    case True
    then show ?thesis
      by (simp add: prune_partition_def split_index_def Let_def py_slice_to_def py_slice_from_def
          slice_index_nonneg split_point_nat)
  next
    case False
    then show ?thesis
      using assms(2,4)
      by (simp add: prune_partition_def split_index_def py_slice_to_def py_slice_from_def
          slice_index_minus)
  qed
  have ne: "take (split_index k ?n) (history_buffer m) \<noteq> []"
    using pos assms(3) by (cases "history_buffer m") auto
  show ?thesis
    using part ne by simp
qed

lemma dynamic_k_positive:
  assumes "calculate_dynamic_threshold cfg m = Inr k"
    and "1 \<le> min_interactions cfg \<or> 1 \<le> max_interactions cfg"
    and "token_buffer m \<noteq> []"
  shows "1 \<le> k"
  using assms
  by (auto simp: calculate_dynamic_threshold_def Let_def split: if_splits)

lemma calculate_dynamic_threshold_three_turns:
  "calculate_dynamic_threshold scenario_config (three_turns sj) = Inr 2"
proof -
  have thr: "adaptive_threshold scenario_config = 90"
    by (rule adaptive_threshold_scenario) (simp_all add: scenario_config_def)
  show ?thesis
    by (simp add: calculate_dynamic_threshold_def avg_tokens_def thr py_int_def three_turns_def
        smoothing_weights_def upt_rec numeral_2_eq_2 Let_def)
      (simp add: scenario_config_def)
qed

text \<open>Claim C6. The claim is that on every invocation of \<^verbatim>\<open>_adaptive_prune\<close> on a buffer
  that is not empty the part to summarize is \<^verbatim>\<open>buffer[0 : n - dynamic_k]\<close> in the
  standard branch, and is never empty. When both interaction bounds of the configuration
  are 0, a buffer of one interaction fires the trigger and \<^verbatim>\<open>dynamic_k\<close> is 0; the
  standard branch then takes \<^verbatim>\<open>history_buffer[:-0]\<close>, which is empty, and retains
  \<^verbatim>\<open>history_buffer[-0:]\<close>, the whole buffer: nothing is summarized, where
  \<^verbatim>\<open>buffer[0 : 1]\<close> was to be.\<close>

theorem prune_partition_zero_dynamic_k:
  "fst (should_trigger_summarization zero_bounds_config
     \<lparr>summary_json = None, history_buffer = [mk_interaction ''hi'' ''hello'' ''t'' 5],
      token_buffer = [5], current_token_sum = 5\<rparr>) \<and>
   calculate_dynamic_threshold zero_bounds_config
     \<lparr>summary_json = None, history_buffer = [mk_interaction ''hi'' ''hello'' ''t'' 5],
      token_buffer = [5], current_token_sum = 5\<rparr> = Inr 0 \<and>
   prune_partition 0
     \<lparr>summary_json = None, history_buffer = [mk_interaction ''hi'' ''hello'' ''t'' 5],
      token_buffer = [5], current_token_sum = 5\<rparr> =
     ([], [], [mk_interaction ''hi'' ''hello'' ''t'' 5], [5]) \<and>
   fst (prune_partition 0
     \<lparr>summary_json = None, history_buffer = [mk_interaction ''hi'' ''hello'' ''t'' 5],
      token_buffer = [5], current_token_sum = 5\<rparr>) \<noteq>
     take (1 - 0) [mk_interaction ''hi'' ''hello'' ''t'' 5]"
proof -
  have thr: "adaptive_threshold zero_bounds_config = 2700"
    by (rule adaptive_threshold_defaults) (simp_all add: zero_bounds_config_def)
  have bounds: "min_interactions zero_bounds_config = 0" "max_interactions zero_bounds_config = 0"
    by (simp_all add: zero_bounds_config_def)
  show ?thesis
    by (simp add: calculate_dynamic_threshold_def avg_tokens_def thr bounds py_int_def
        prune_partition_def py_slice_to_def py_slice_from_def slice_index_def
        should_trigger_summarization_def)
qed

subsection \<open>The hard cap on a buffer of zero-token interactions\<close>

lemma zero_weighted_sum:
  "\<forall>t\<in>set tb. t = 0 \<Longrightarrow>
     sum_list (map (\<lambda>(token, weight). of_int token * weight) (zip tb ws)) = (0::rat)"
proof (induction tb arbitrary: ws)
  case Nil
  then show ?case by simp
next
  case (Cons a tb)
  then show ?case by (cases ws) auto
qed

lemma zero_avg_tokens:
  assumes "tb \<noteq> []" and "\<forall>t\<in>set tb. t = 0"
  shows "avg_tokens cfg tb = 0"
proof -
  have "hd tb = 0" and "last tb = 0"
    using assms by auto
  then show ?thesis
    using zero_weighted_sum[OF assms(2)] by (simp add: avg_tokens_def Let_def)
qed

lemma zero_tokens_divide:
  assumes "token_buffer m \<noteq> []" and "\<forall>t\<in>set (token_buffer m). t = 0"
  shows "calculate_dynamic_threshold cfg m = Inl ZeroDivisionError"
  using zero_avg_tokens[OF assms] assms(1) by (simp add: calculate_dynamic_threshold_def)

lemma zero_tokens_add_raises:
  assumes "\<forall>t\<in>set (token_buffer m). t = 0"
    and "fst (should_trigger_summarization cfg (append_interaction p r now 0 m))"
  shows "fst (add_interaction e cfg now p r 0 full (m, db)) = Some ZeroDivisionError"
proof -
  let ?m2 = "snd (should_trigger_summarization cfg (append_interaction p r now 0 m))"
  have "token_buffer ?m2 = token_buffer m @ [0]"
    by (simp add: should_trigger_keeps append_interaction_def)
  then have "calculate_dynamic_threshold cfg ?m2 = Inl ZeroDivisionError"
    using assms(1) by (intro zero_tokens_divide) auto
  then have "fst (adaptive_prune e cfg ?m2) = Some ZeroDivisionError"
    by (simp add: adaptive_prune_def)
  then show ?thesis
    using add_interaction_prunes[OF assms(2)] by simp
qed

lemma silent_step:
  assumes "Suc n < 50"
  shows "add_interaction e default_config ''2025-08-29T21:44:30+00:00'' ''ping'' [] 0 None
           (silent n, db) =
          (None, silent (Suc n),
           log_interaction_to_db e default_config ''ping'' [] ''2025-08-29T21:44:30+00:00'' 0 db)"
proof -
  have a: "append_interaction ''ping'' [] ''2025-08-29T21:44:30+00:00'' 0 (silent n) = silent (Suc n)"
    by (simp add: append_interaction_def silent_def mk_interaction_def replicate_append_same)
  have t: "should_trigger_summarization default_config (silent (Suc n)) = (False, silent (Suc n))"
    using assms
    by (simp add: should_trigger_summarization_def silent_def default_config_def
        adaptive_threshold_defaults Let_def sum_list_replicate)
  show ?thesis
    using add_interaction_quiet[of default_config "''ping''" "[]" "''2025-08-29T21:44:30+00:00''"
        0 "silent n" e None db]
    by (simp add: a t)
qed

lemma silent_reachable: "n < 50 \<Longrightarrow> reachable default_config (silent n)"
proof (induction n)
  case 0
  have "silent 0 = load_from_db None"
    by (simp add: silent_def load_from_db_def)
  then show ?case
    using reachable.loaded[of default_config None] by simp
next
  case (Suc n)
  then have "reachable default_config (silent n)"
    by simp
  then show ?case
    using silent_step[OF Suc.prems] by (rule reachable.added)
qed

text \<open>Claim C3. The claim is that the pruning path completes without raising in every
  state in which the trigger fires, in particular for a buffer of \<^verbatim>\<open>max_interactions\<close>
  interactions of 0 tokens. The code does the opposite there: when every buffered token
  count is 0 and the interaction added has 0 tokens, a call of \<^verbatim>\<open>add_interaction\<close> in
  which the trigger fires raises \<^verbatim>\<open>ZeroDivisionError\<close>, from the division by the smoothed
  average in \<^verbatim>\<open>_calculate_dynamic_threshold\<close>. The instance below is the 50th
  interaction with an empty response under the default configuration.\<close>

theorem add_interaction_zero_tokens_raises:
  assumes "\<forall>t\<in>set (token_buffer m). t = 0"
    and "fst (should_trigger_summarization cfg (append_interaction p r now 0 m))"
  shows "fst (add_interaction e cfg now p r 0 full (m, db)) = Some ZeroDivisionError"
  using assms by (rule zero_tokens_add_raises)

theorem add_interaction_zero_tokens_raises_witness:
  "reachable default_config (silent 49) \<and>
   token_buffer (silent 49) = replicate 49 0 \<and>
   fst (should_trigger_summarization default_config
          (append_interaction ''ping'' [] ''2025-08-29T21:44:30+00:00'' 0 (silent 49))) \<and>
   fst (add_interaction working_env default_config ''2025-08-29T21:44:30+00:00'' ''ping'' [] 0 None
          (silent 49, [])) = Some ZeroDivisionError"
proof -
  have z: "\<forall>t\<in>set (token_buffer (silent 49)). t = 0"
    by (simp add: silent_def)
  have t: "fst (should_trigger_summarization default_config
          (append_interaction ''ping'' [] ''2025-08-29T21:44:30+00:00'' 0 (silent 49)))"
    by (simp add: should_trigger_summarization_def silent_def default_config_def
        adaptive_threshold_defaults Let_def append_interaction_def sum_list_replicate)
  have tb: "token_buffer (silent 49) = replicate 49 0"
    by (simp add: silent_def)
  show ?thesis
    using add_interaction_zero_tokens_raises[OF z t] tb t silent_reachable[of 49] by simp
qed

subsection \<open>Pruning when the summarization backend fails\<close>

lemma adaptive_prune_no_summary_yet:
  assumes "\<not> truthy_str (summary_json m)"
    and "backend_fails e (summary_json m) (fst (prune_partition k m))"
    and "calculate_dynamic_threshold cfg m = Inr k"
  shows "adaptive_prune e cfg m = (None, m)"
proof -
  obtain a b c d where p: "prune_partition k m = (a, b, c, d)"
    by (cases "prune_partition k m") auto
  have r: "render_previous_summary e (summary_json m) = None"
    using assms(1) by (simp add: render_previous_summary_def)
  have "summarize e (summary_json m) a = Inr (summary_json m)"
    using assms(2) p r by (auto simp: summarize_def backend_fails_def split: option.splits)
  then show ?thesis
    using assms(1,3) p by (simp add: adaptive_prune_def)
qed

text \<open>Claim C1. The claim is that \<^verbatim>\<open>_adaptive_prune\<close> changes nothing when the backend
  call of the summarizer fails. The code does so only while there is no stored summary
  (\<open>adaptive_prune_no_summary_yet\<close> below). With a stored summary, \<^verbatim>\<open>summarize\<close> returns
  that summary on failure, \<^verbatim>\<open>if new_summary:\<close> takes it for a new one, and the buffers
  are cut: the interactions that were to be summarized are dropped from the memory
  and the summary is the old one.\<close>

theorem adaptive_prune_failed_backend:
  assumes "calculate_dynamic_threshold cfg m = Inr k"
    and "prune_partition k m = (to_summarize, to_summarize_tokens, retained, retained_tokens)"
    and "to_summarize \<noteq> []"
    and "truthy_str (summary_json m)"
    and "render_previous_summary e (summary_json m) = None"
    and "backend_fails e (summary_json m) to_summarize"
  shows "adaptive_prune e cfg m =
           (None, m\<lparr>history_buffer := retained, token_buffer := retained_tokens\<rparr>)"
proof -
  have "summarize e (summary_json m) to_summarize = Inr (summary_json m)"
    using assms(3,5,6) by (auto simp: summarize_def backend_fails_def split: option.splits)
  then show ?thesis
    using assms(1,2,4) by (simp add: adaptive_prune_def)
qed

theorem adaptive_prune_failed_backend_witness:
  "calculate_dynamic_threshold scenario_config (three_turns (Some ''{}'')) = Inr 2 \<and>
   prune_partition 2 (three_turns (Some ''{}'')) =
     ([first_turn], [40], [second_turn, third_turn], [40, 40]) \<and>
   truthy_str (summary_json (three_turns (Some ''{}''))) \<and>
   render_previous_summary failing_env (summary_json (three_turns (Some ''{}''))) = None \<and>
   backend_fails failing_env (summary_json (three_turns (Some ''{}''))) [first_turn] \<and>
   adaptive_prune failing_env scenario_config (three_turns (Some ''{}'')) =
     (None, \<lparr>summary_json = Some ''{}'', history_buffer = [second_turn, third_turn],
             token_buffer = [40, 40], current_token_sum = 120\<rparr>) \<and>
   history_buffer (snd (adaptive_prune failing_env scenario_config (three_turns (Some ''{}'')))) \<noteq>
     history_buffer (three_turns (Some ''{}''))"
proof -
  let ?m = "three_turns (Some ''{}'')"
  have k: "calculate_dynamic_threshold scenario_config ?m = Inr 2"
    by (rule calculate_dynamic_threshold_three_turns)
  have p: "prune_partition 2 ?m = ([first_turn], [40], [second_turn, third_turn], [40, 40])"
    by (simp add: prune_partition_def three_turns_def py_slice_to_def py_slice_from_def
        slice_index_def)
  have ne: "[first_turn] \<noteq> []"
    by simp
  have t: "truthy_str (summary_json ?m)"
    by (simp add: three_turns_def truthy_str_def)
  have r: "render_previous_summary failing_env (summary_json ?m) = None"
    by (simp add: render_previous_summary_def three_turns_def truthy_str_def failing_env_def
        sample_loads_def json_get_def)
  have b: "backend_fails failing_env (summary_json ?m) [first_turn]"
    by (simp add: backend_fails_def failing_env_def)
  have a: "adaptive_prune failing_env scenario_config ?m =
     (None, \<lparr>summary_json = Some ''{}'', history_buffer = [second_turn, third_turn],
             token_buffer = [40, 40], current_token_sum = 120\<rparr>)"
    using adaptive_prune_failed_backend[OF k p ne t r b] by (simp add: three_turns_def)
  have d: "history_buffer (snd (adaptive_prune failing_env scenario_config ?m)) \<noteq>
     history_buffer ?m"
    unfolding a by (simp add: three_turns_def)
  show ?thesis
    using k p t r b a d by blast
qed

subsection \<open>The scenario with three interactions of 40 tokens\<close>

lemma avg_tokens_three_forties: "avg_tokens cfg [40, 40, 40] = 40"
proof -
  have w: "smoothing_weights sf (Suc (Suc (Suc 0))) = [sf ^ 2, sf, 1]" for sf
    by (simp add: smoothing_weights_def upt_rec numeral_2_eq_2)
  show ?thesis
    by (simp add: avg_tokens_def w Let_def field_simps)
qed

text \<open>Claim C8. With \<^verbatim>\<open>min_interactions\<close> 2, \<^verbatim>\<open>max_interactions\<close> 50, safety margin
  0.9 and \<^verbatim>\<open>tok_K\<close> 100 the adaptive threshold is 90. Starting from the empty memory,
  three calls of \<^verbatim>\<open>add_interaction\<close> with 40 tokens each: the first two return without
  pruning (the memory holds the one, then the two interactions, and no summary); in the
  third the trigger fires, \<^verbatim>\<open>dynamic_k\<close> is 2, the part to summarize is the first
  interaction, and with a summarizer that succeeds on it (its completion is the text
  \<open>s\<close>, which decodes as JSON) the call returns with summary \<open>s\<close>, the history buffer
  holding exactly the last two interactions, and token buffer \<open>[40, 40]\<close>. This holds
  for every smoothing factor.\<close>

theorem scenario_three_forties:
  assumes cfg: "tok_K cfg = 100" "min_interactions cfg = 2" "max_interactions cfg = 50"
      "safety_margin cfg = 9 / 10"
    and s1: "add_interaction e1 cfg t1 p1 r1 40 f1 (load_from_db None, db0) = (err1, m1, db1)"
    and s2: "add_interaction e2 cfg t2 p2 r2 40 f2 (m1, db1) = (err2, m2, db2)"
    and s3: "add_interaction e3 cfg t3 p3 r3 40 f3 (m2, db2) = (err3, m3, db3)"
    and ok: "llm_complete e3 None [mk_interaction p1 r1 t1 40] = Some s"
      "json_loads e3 s \<noteq> None" "s \<noteq> []"
  shows "adaptive_threshold cfg = 90 \<and>
         err1 = None \<and> summary_json m1 = None \<and>
         history_buffer m1 = [mk_interaction p1 r1 t1 40] \<and> token_buffer m1 = [40] \<and>
         err2 = None \<and> summary_json m2 = None \<and>
         history_buffer m2 = [mk_interaction p1 r1 t1 40, mk_interaction p2 r2 t2 40] \<and>
         token_buffer m2 = [40, 40] \<and>
         calculate_dynamic_threshold cfg (append_interaction p3 r3 t3 40 m2) = Inr 2 \<and>
         prune_partition 2 (append_interaction p3 r3 t3 40 m2) =
           ([mk_interaction p1 r1 t1 40], [40],
            [mk_interaction p2 r2 t2 40, mk_interaction p3 r3 t3 40], [40, 40]) \<and>
         err3 = None \<and> summary_json m3 = Some s \<and>
         history_buffer m3 = [mk_interaction p2 r2 t2 40, mk_interaction p3 r3 t3 40] \<and>
         token_buffer m3 = [40, 40]"
proof -
  have thr: "adaptive_threshold cfg = 90"
    by (simp add: adaptive_threshold_scenario cfg)
  let ?i1 = "mk_interaction p1 r1 t1 40" and ?i2 = "mk_interaction p2 r2 t2 40"
    and ?i3 = "mk_interaction p3 r3 t3 40"
  let ?a1 = "\<lparr>summary_json = None, history_buffer = [?i1], token_buffer = [40],
              current_token_sum = 0\<rparr>"
  let ?a2 = "\<lparr>summary_json = None, history_buffer = [?i1, ?i2], token_buffer = [40, 40],
              current_token_sum = 80\<rparr>"
  let ?a3 = "\<lparr>summary_json = None, history_buffer = [?i1, ?i2, ?i3], token_buffer = [40, 40, 40],
              current_token_sum = 120\<rparr>"
  let ?b2 = "\<lparr>summary_json = None, history_buffer = [?i1, ?i2], token_buffer = [40, 40],
              current_token_sum = 0\<rparr>"
  let ?b3 = "\<lparr>summary_json = None, history_buffer = [?i1, ?i2, ?i3], token_buffer = [40, 40, 40],
              current_token_sum = 80\<rparr>"
  have app1: "append_interaction p1 r1 t1 40 (load_from_db None) = ?a1"
    by (simp add: append_interaction_def load_from_db_def mk_interaction_def)
  have tr1: "should_trigger_summarization cfg ?a1 = (False, ?a1)"
    by (simp add: should_trigger_summarization_def cfg)
  have r1: "err1 = None \<and> m1 = ?a1"
    using s1 add_interaction_quiet[of cfg p1 r1 t1 40 "load_from_db None" e1 f1 db0]
    by (simp add: app1 tr1)
  have app2: "append_interaction p2 r2 t2 40 ?a1 = ?b2"
    by (simp add: append_interaction_def mk_interaction_def)
  have tr2: "should_trigger_summarization cfg ?b2 = (False, ?a2)"
    by (simp add: should_trigger_summarization_def cfg thr Let_def)
  have r2: "err2 = None \<and> m2 = ?a2"
    using s2 r1 add_interaction_quiet[of cfg p2 r2 t2 40 ?a1 e2 f2 db1]
    by (simp add: app2 tr2)
  have app3: "append_interaction p3 r3 t3 40 ?a2 = ?b3"
    by (simp add: append_interaction_def mk_interaction_def)
  have tr3: "should_trigger_summarization cfg ?b3 = (True, ?a3)"
    by (simp add: should_trigger_summarization_def cfg thr Let_def)
  have k80: "calculate_dynamic_threshold cfg ?b3 = Inr 2"
    by (simp add: calculate_dynamic_threshold_def avg_tokens_three_forties thr cfg py_int_def)
  have k: "calculate_dynamic_threshold cfg ?a3 = Inr 2"
    by (simp add: calculate_dynamic_threshold_def avg_tokens_three_forties thr cfg py_int_def)
  have part: "prune_partition 2 ?a3 = ([?i1], [40], [?i2, ?i3], [40, 40])"
    by (simp add: prune_partition_def py_slice_to_def py_slice_from_def slice_index_def)
  have part80: "prune_partition 2 ?b3 = ([?i1], [40], [?i2, ?i3], [40, 40])"
    by (simp add: prune_partition_def py_slice_to_def py_slice_from_def slice_index_def)
  have sm: "summarize e3 None [?i1] = Inr (Some s)"
    using ok by (auto simp: summarize_def render_previous_summary_def truthy_str_def)
  have pr: "adaptive_prune e3 cfg ?a3 =
      (None, \<lparr>summary_json = Some s, history_buffer = [?i2, ?i3], token_buffer = [40, 40],
              current_token_sum = 120\<rparr>)"
    using ok(3) by (simp add: adaptive_prune_def k part sm truthy_str_def)
  have r3: "err3 = None \<and> m3 = \<lparr>summary_json = Some s, history_buffer = [?i2, ?i3],
      token_buffer = [40, 40], current_token_sum = 120\<rparr>"
    using s3 r2 add_interaction_prunes[of cfg p3 r3 t3 40 ?a2 e3 f3 db2]
    by (simp add: app3 tr3 pr)
  show ?thesis
    using thr r1 r2 r3 k80 part80 app3 by simp
qed



theorem scenario_three_forties_witness:
  "tok_K scenario_config = 100 \<and> min_interactions scenario_config = 2 \<and>
   max_interactions scenario_config = 50 \<and> safety_margin scenario_config = 9 / 10 \<and>
   llm_complete working_env None [first_turn] = Some ''{}'' \<and>
   json_loads working_env ''{}'' \<noteq> None \<and> ''{}'' \<noteq> [] \<and>
   fst after_first = None \<and> history_buffer (fst (snd after_first)) = [first_turn] \<and>
   fst after_second = None \<and>
   history_buffer (fst (snd after_second)) = [first_turn, second_turn] \<and>
   fst after_third = None \<and>
   summary_json (fst (snd after_third)) = Some ''{}'' \<and>
   history_buffer (fst (snd after_third)) = [second_turn, third_turn] \<and>
   token_buffer (fst (snd after_third)) = [40, 40]"
proof -
  have cfg: "tok_K scenario_config = 100" "min_interactions scenario_config = 2"
    "max_interactions scenario_config = 50" "safety_margin scenario_config = 9 / 10"
    by (simp_all add: scenario_config_def)
  have s1: "add_interaction working_env scenario_config ''2025-08-29T21:44:31+00:00'' ''one?''
              ''one.'' 40 None (load_from_db None, []) =
            (fst after_first, fst (snd after_first), snd (snd after_first))"
    by (simp add: after_first_def)
  have s2: "add_interaction working_env scenario_config ''2025-08-29T21:44:32+00:00'' ''two?''
              ''two.'' 40 None (fst (snd after_first), snd (snd after_first)) =
            (fst after_second, fst (snd after_second), snd (snd after_second))"
    by (simp add: after_second_def)
  have s3: "add_interaction working_env scenario_config ''2025-08-29T21:44:33+00:00'' ''three?''
              ''three.'' 40 None (fst (snd after_second), snd (snd after_second)) =
            (fst after_third, fst (snd after_third), snd (snd after_third))"
    by (simp add: after_third_def)
  have ne: "''{}'' \<noteq> []"
    by simp
  have llm: "llm_complete working_env None
               [mk_interaction ''one?'' ''one.'' ''2025-08-29T21:44:31+00:00'' 40] = Some ''{}''"
    and loads: "json_loads working_env ''{}'' \<noteq> None"
    by (simp_all add: working_env_def sample_loads_def)
  note r = scenario_three_forties[OF cfg s1 s2 s3 llm loads ne]
  show ?thesis
    using cfg r llm loads ne
    unfolding first_turn_def second_turn_def third_turn_def by blast
qed

subsection \<open>The context when the stored summary is malformed\<close>

lemma get_context_no_summary:
  "\<not> truthy_str (summary_json m) \<Longrightarrow> get_context e m = Inr (history_messages (history_buffer m))"
  by (simp add: get_context_def)

lemma get_context_undecodable:
  "json_loads e (the (summary_json m)) = None \<Longrightarrow>
     get_context e m = Inr (history_messages (history_buffer m))"
  by (simp add: get_context_def summary_message_def)

text \<open>Claim C7. The claim is that \<^verbatim>\<open>get_context\<close> never raises and leaves the summary
  message out when the stored text is not the expected summary object. The code does so
  when the text is not JSON (\<open>get_context_undecodable\<close> above). When the text is JSON
  for anything but an object (a list, a string, a number, \<^verbatim>\<open>true\<close>, \<^verbatim>\<open>null\<close>),
  \<^verbatim>\<open>summary_data.get\<close> raises \<^verbatim>\<open>AttributeError\<close>, which the handler does not catch:
  \<^verbatim>\<open>get_context\<close> raises.\<close>

theorem get_context_non_object_raises:
  assumes "truthy_str (summary_json m)"
    and "json_loads e (the (summary_json m)) = Some v"
    and "\<forall>kvs. v \<noteq> JObject kvs"
  shows "get_context e m = Inl AttributeError"
proof -
  have "json_get v ''interactions'' (JArray []) = Inl AttributeError"
    using assms(3) by (cases v) (simp_all add: json_get_def)
  then have "summary_message e (the (summary_json m)) = Inl AttributeError"
    using assms(2) by (simp add: summary_message_def)
  then show ?thesis
    using assms(1) by (simp add: get_context_def)
qed

theorem get_context_non_object_raises_witness:
  "truthy_str (summary_json (three_turns (Some ''[]''))) \<and>
   json_loads working_env (the (summary_json (three_turns (Some ''[]'')))) = Some (JArray []) \<and>
   (\<forall>kvs. JArray [] \<noteq> JObject kvs) \<and>
   get_context working_env (three_turns (Some ''[]'')) = Inl AttributeError"
proof -
  have t: "truthy_str (summary_json (three_turns (Some ''[]'')))"
    by (simp add: three_turns_def truthy_str_def)
  have l: "json_loads working_env (the (summary_json (three_turns (Some ''[]'')))) = Some (JArray [])"
    by (simp add: three_turns_def working_env_def sample_loads_def)
  have n: "\<forall>kvs. JArray [] \<noteq> JObject kvs"
    by simp
  show ?thesis
    using get_context_non_object_raises[OF t l n] t l n by blast
qed

subsection \<open>A database error in the write to the transcript\<close>

lemma summarize_ignores_db: "summarize (e\<lparr>db_insert_ok := b\<rparr>) sj entries = summarize e sj entries"
  by (simp add: summarize_def render_previous_summary_def split: option.splits sum.splits)

lemma adaptive_prune_ignores_db: "adaptive_prune (e\<lparr>db_insert_ok := b\<rparr>) cfg m = adaptive_prune e cfg m"
  by (simp add: adaptive_prune_def summarize_ignores_db split: sum.splits prod.splits)

text \<open>An \<^verbatim>\<open>sqlite3.Error\<close> of the insert itself is dropped: with a connection, the
  transcript is left as it was, and the memory and the outcome of the call are those of
  the call whose insert goes through.\<close>

lemma insert_failure_dropped:
  assumes "\<not> db_insert_ok e"
  shows "snd (snd (add_interaction_call True e cfg now p r tc full (m, db))) = db \<and>
         (fst (add_interaction_call True e cfg now p r tc full (m, db)),
          fst (snd (add_interaction_call True e cfg now p r tc full (m, db)))) =
           (fst (add_interaction_call True (e\<lparr>db_insert_ok := True\<rparr>) cfg now p r tc full (m, db)),
            fst (snd (add_interaction_call True (e\<lparr>db_insert_ok := True\<rparr>) cfg now p r tc full
                   (m, db))))"
proof (cases "fst (should_trigger_summarization cfg (append_interaction p r now tc m))")
  case True
  show ?thesis
    using assms
    by (simp add: add_interaction_call_def log_interaction_to_db_call_def
        add_interaction_prunes[OF True] log_interaction_to_db_def adaptive_prune_ignores_db)
next
  case False
  show ?thesis
    using assms
    by (simp add: add_interaction_call_def log_interaction_to_db_call_def
        add_interaction_quiet[OF False] log_interaction_to_db_def)
qed


end
